theory Spec2Isabelle
  imports
    Main
    "HOL-Library.Char_ord"
    "HOL-Library.List_Lexorder"
    "HOL-Library.Product_Lexorder"
    "HOL-Library.Multiset"
begin

section \<open>Python values and exceptions\<close>

text \<open>
  The values that reach the functions of \<^verbatim>\<open>scripts/initialize_classes.py\<close> are cells of a
  data frame and pieces of decoded JSON: None, booleans, integers, floats, strings, lists
  and dictionaries with string keys. Floats are kept abstract (the type parameter
  \<open>'f\<close>): no function below computes with one.
\<close>

datatype 'f pyval =
    PNone
  | PBool bool
  | PInt int
  | PFloat 'f
  | PStr string
  | PList "'f pyval list"
  | PDict "(string \<times> 'f pyval) list"

text \<open>
  Exceptions are values. \<open>AttributeError\<close> carries the attribute that was looked up,
  \<open>KeyError\<close> the missing label (a column label of a pivoted frame is a pair, so the
  label is a list of strings).
\<close>

datatype exn =
    AttributeError string
  | KeyError "string list"
  | TypeError
  | ValueError
  | OverflowError
  | JSONDecodeError
  | RequestException

datatype exn_class =
    CAttributeError | CKeyError | CTypeError | CValueError | COverflowError
  | CJSONDecodeError | CRequestException

fun class_of :: "exn \<Rightarrow> exn_class" where
  "class_of (AttributeError _) = CAttributeError"
| "class_of (KeyError _) = CKeyError"
| "class_of TypeError = CTypeError"
| "class_of ValueError = CValueError"
| "class_of OverflowError = COverflowError"
| "class_of JSONDecodeError = CJSONDecodeError"
| "class_of RequestException = CRequestException"

definition exn_isinstance :: "exn \<Rightarrow> exn_class \<Rightarrow> bool" where
  \<comment> \<open>\<open>json.JSONDecodeError\<close> is a subclass of \<open>ValueError\<close>.\<close>
  "exn_isinstance e c \<longleftrightarrow>
     class_of e = c \<or> (class_of e = CJSONDecodeError \<and> c = CValueError)"

definition bind_exn :: "exn + 'a \<Rightarrow> ('a \<Rightarrow> exn + 'b) \<Rightarrow> exn + 'b" where
  "bind_exn m k = (case m of Inl e \<Rightarrow> Inl e | Inr x \<Rightarrow> k x)"

text \<open>
  \<^verbatim>\<open>try: body  except (C1, ..., Cn): return h\<close>. The tuple of classes after
  \<^verbatim>\<open>except\<close> is an expression: Python evaluates it only once the body has raised, and an
  exception raised while evaluating it replaces the one being handled.
\<close>

definition try_except :: "exn + 'a \<Rightarrow> exn + exn_class list \<Rightarrow> 'a \<Rightarrow> exn + 'a" where
  "try_except body classes h =
     (case body of
        Inr v \<Rightarrow> Inr v
      | Inl e \<Rightarrow>
          (case classes of
             Inl e' \<Rightarrow> Inl e'
           | Inr cs \<Rightarrow> if list_ex (exn_isinstance e) cs then Inr h else Inl e))"

text \<open>\<^verbatim>\<open>obj[key]\<close> for a string key: only a dictionary can be subscripted by a string.\<close>

fun py_getitem :: "'f pyval \<Rightarrow> string \<Rightarrow> exn + 'f pyval" where
  "py_getitem (PDict d) k =
     (case map_of d k of Some v \<Rightarrow> Inr v | None \<Rightarrow> Inl (KeyError [k]))"
| "py_getitem _ k = Inl TypeError"

text \<open>
  The public attributes of the built-in types (Python 3.12, the double-underscore
  names left out). None of them is called \<open>loads\<close> or \<open>JSONDecodeError\<close>.
\<close>

definition str_attrs :: "string list" where
  "str_attrs =
     [''capitalize'', ''casefold'', ''center'', ''count'', ''encode'', ''endswith'',
      ''expandtabs'', ''find'', ''format'', ''format_map'', ''index'', ''isalnum'',
      ''isalpha'', ''isascii'', ''isdecimal'', ''isdigit'', ''isidentifier'', ''islower'',
      ''isnumeric'', ''isprintable'', ''isspace'', ''istitle'', ''isupper'', ''join'',
      ''ljust'', ''lower'', ''lstrip'', ''maketrans'', ''partition'', ''removeprefix'',
      ''removesuffix'', ''replace'', ''rfind'', ''rindex'', ''rjust'', ''rpartition'',
      ''rsplit'', ''rstrip'', ''split'', ''splitlines'', ''startswith'', ''strip'',
      ''swapcase'', ''title'', ''translate'', ''upper'', ''zfill'']"

definition dict_attrs :: "string list" where
  "dict_attrs =
     [''clear'', ''copy'', ''fromkeys'', ''get'', ''items'', ''keys'', ''pop'',
      ''popitem'', ''setdefault'', ''update'', ''values'']"

definition list_attrs :: "string list" where
  "list_attrs =
     [''append'', ''clear'', ''copy'', ''count'', ''extend'', ''index'', ''insert'',
      ''pop'', ''remove'', ''reverse'', ''sort'']"

definition int_attrs :: "string list" where
  "int_attrs =
     [''as_integer_ratio'', ''bit_count'', ''bit_length'', ''conjugate'', ''denominator'',
      ''from_bytes'', ''imag'', ''is_integer'', ''numerator'', ''real'', ''to_bytes'']"

definition float_attrs :: "string list" where
  "float_attrs =
     [''as_integer_ratio'', ''conjugate'', ''fromhex'', ''hex'', ''imag'', ''is_integer'',
      ''real'']"

fun builtin_attrs :: "'f pyval \<Rightarrow> string list" where
  "builtin_attrs PNone = []"
| "builtin_attrs (PBool _) = int_attrs"
| "builtin_attrs (PInt _) = int_attrs"
| "builtin_attrs (PFloat _) = float_attrs"
| "builtin_attrs (PStr _) = str_attrs"
| "builtin_attrs (PList _) = list_attrs"
| "builtin_attrs (PDict _) = dict_attrs"

text \<open>
  \<^verbatim>\<open>obj.name\<close> followed by the use \<open>k\<close> of the attribute: the lookup raises
  \<open>AttributeError\<close> when the object has no attribute of that name.
\<close>

definition getattr_then :: "'f pyval \<Rightarrow> string \<Rightarrow> (exn + 'a) \<Rightarrow> exn + 'a" where
  "getattr_then obj name k =
     (if name \<in> set (builtin_attrs obj) then k else Inl (AttributeError name))"

text \<open>
  \<^verbatim>\<open>float(v)\<close>. The two conversions that compute a float, from an integer (which
  overflows beyond the range of a double) and from the text of a number, are parameters.
\<close>

record 'f float_ops =
  float_of_int :: "int \<Rightarrow> 'f option"
  float_of_str :: "string \<Rightarrow> 'f option"

fun py_float :: "'f float_ops \<Rightarrow> 'f pyval \<Rightarrow> exn + 'f" where
  "py_float ops (PFloat x) = Inr x"
| "py_float ops (PInt n) =
     (case float_of_int ops n of Some x \<Rightarrow> Inr x | None \<Rightarrow> Inl OverflowError)"
| "py_float ops (PBool b) =
     (case float_of_int ops (if b then 1 else 0) of
        Some x \<Rightarrow> Inr x | None \<Rightarrow> Inl OverflowError)"
| "py_float ops (PStr s) =
     (case float_of_str ops s of Some x \<Rightarrow> Inr x | None \<Rightarrow> Inl ValueError)"
| "py_float ops _ = Inl TypeError"

section \<open>Preprocessor: the two cell extractors\<close>

text \<open>
  \<^verbatim>\<open>Preprocessor.extract_country_name(self, json_dict)\<close>: the body is
  \<^verbatim>\<open>return json_dict['name']\<close> under \<^verbatim>\<open>except (json.JSONDecodeError, KeyError)\<close>.
  Here \<open>json\<close> is the imported module, so the tuple of classes evaluates.
\<close>

definition extract_country_name :: "'f pyval \<Rightarrow> exn + 'f pyval" where
  "extract_country_name json_dict =
     try_except (py_getitem json_dict ''name'') (Inr [CJSONDecodeError, CKeyError]) PNone"

text \<open>
  \<^verbatim>\<open>Preprocessor.extract_rating(self, json)\<close>. The parameter is called \<open>json\<close>, so
  inside the body every \<open>json\<close> is the argument and not the module: \<^verbatim>\<open>json.loads\<close> and
  \<^verbatim>\<open>json.JSONDecodeError\<close> are attribute lookups on the argument, which is a string in the
  second branch and a dictionary in the third. \<open>loads\<close> stands for the module's parser,
  which the body would call had the lookup succeeded.
\<close>

definition rating_handler_classes :: "'f pyval \<Rightarrow> exn + exn_class list" where
  "rating_handler_classes json =
     getattr_then json ''JSONDecodeError''
       (Inr [CJSONDecodeError, CKeyError, CTypeError, CValueError])"

definition extract_rating ::
  "'f float_ops \<Rightarrow> (string \<Rightarrow> exn + 'f pyval) \<Rightarrow> 'f pyval \<Rightarrow> exn + 'f pyval" where
  "extract_rating ops loads json =
     (case json of
        PFloat x \<Rightarrow> Inr json
      | PStr s \<Rightarrow>
          try_except
            (bind_exn (getattr_then json ''loads'' (loads s)) (\<lambda>data_dict.
             bind_exn (py_getitem data_dict ''original'') (\<lambda>v.
             bind_exn (py_float ops v) (\<lambda>x. Inr (PFloat x)))))
            (rating_handler_classes json) PNone
      | PDict d \<Rightarrow>
          try_except
            (bind_exn (py_getitem json ''original'') (\<lambda>v.
             bind_exn (py_float ops v) (\<lambda>x. Inr (PFloat x))))
            (rating_handler_classes json) PNone
      | _ \<Rightarrow> Inr PNone)"

section \<open>Preprocessor: the position filter\<close>

text \<open>
  A data frame of player records: the column labels, and one row per player, each with
  its index label and its cells, one per column.
\<close>

record 'f dataframe =
  columns :: "string list"
  rows :: "(nat \<times> (string \<times> 'f pyval) list) list"

text \<open>
  \<^verbatim>\<open>df.drop(labels, axis=1, inplace=True)\<close>: pandas looks every label up before it removes
  any, and raises \<open>KeyError\<close> with the missing ones, leaving the frame as it was.
\<close>

definition drop_columns :: "string list \<Rightarrow> 'f dataframe \<Rightarrow> exn + 'f dataframe" where
  "drop_columns labels df =
     (if list_all (\<lambda>l. l \<in> set (columns df)) labels
      then Inr (df\<lparr>columns := filter (\<lambda>c. c \<notin> set labels) (columns df),
                   rows := map (\<lambda>(i, cells). (i, filter (\<lambda>(c, v). c \<notin> set labels) cells))
                             (rows df)\<rparr>)
      else Inl (KeyError (filter (\<lambda>l. l \<notin> set (columns df)) labels)))"

text \<open>\<^verbatim>\<open>df.drop(index_labels)\<close>: a new frame without the rows of these labels.\<close>

definition drop_rows :: "nat list \<Rightarrow> 'f dataframe \<Rightarrow> 'f dataframe" where
  "drop_rows labels df = df\<lparr>rows := filter (\<lambda>(i, cells). i \<notin> set labels) (rows df)\<rparr>"

text \<open>
  The rows whose \<open>position\<close> cell equals a string: \<^verbatim>\<open>df.loc[df["position"] == s]\<close>, a new
  frame. The column is read by subscript in \<open>preprocess_gk\<close> (a missing column is a
  \<open>KeyError\<close>) and as an attribute in \<open>preprocess_outfield\<close> (an
  \<open>AttributeError\<close>); the exception to raise is the argument \<open>missing\<close>.
\<close>

definition position_equals :: "exn \<Rightarrow> string \<Rightarrow> 'f dataframe \<Rightarrow> exn + 'f dataframe" where
  "position_equals missing s df =
     (if ''position'' \<in> set (columns df)
      then Inr (df\<lparr>rows := filter (\<lambda>(i, cells). map_of cells ''position'' = Some (PStr s))
                             (rows df)\<rparr>)
      else Inl missing)"

definition gk_drop_list :: "string list" where
  "gk_drop_list =
     [''totalCross'', ''shotOffTarget'', ''onTargetScoringAttempt'', ''expectedGoals'',
      ''bigChanceMissed'', ''outfielderBlock'', ''accurateCross'', ''goals'',
      ''totalOffside'']"

definition outfield_drop_list :: "string list" where
  "outfield_drop_list =
     [''goodHighClaim'', ''savedShotsFromInsideTheBox'', ''saves'', ''punches'',
      ''totalKeeperSweeper'', ''accurateKeeperSweeper'', ''goalsPrevented'']"

text \<open>
  \<^verbatim>\<open>try: frame.drop([...], axis=1, inplace=True)  except: pass\<close>: the frame after the
  statement, whatever the drop raised.
\<close>

definition try_drop_columns :: "string list \<Rightarrow> 'f dataframe \<Rightarrow> 'f dataframe" where
  "try_drop_columns labels df =
     (case drop_columns labels df of Inr df' \<Rightarrow> df' | Inl e \<Rightarrow> df)"

definition preprocess_gk :: "'f dataframe \<Rightarrow> exn + 'f dataframe" where
  "preprocess_gk df =
     bind_exn (position_equals (KeyError [''position'']) ''G'' df) (\<lambda>gk_df.
       Inr (try_drop_columns gk_drop_list gk_df))"

text \<open>
  \<open>preprocess_outfield\<close> prunes the caller's frame in place and returns it. The
  statement \<^verbatim>\<open>df.drop(df[df.position == "GK"].index)\<close> builds a new frame and discards it.
\<close>

definition preprocess_outfield :: "'f dataframe \<Rightarrow> exn + 'f dataframe" where
  "preprocess_outfield df0 =
     (let df = try_drop_columns outfield_drop_list df0 in
      bind_exn (position_equals (AttributeError ''position'') ''GK'' df) (\<lambda>gk_rows.
        let discarded = drop_rows (map fst (rows gk_rows)) df in
        Inr df))"

text \<open>A frame of two players, a goalkeeper and a forward, with two of the optional columns.\<close>

definition squad :: "'f dataframe" where
  "squad = \<lparr>columns = [''name'', ''position'', ''saves'', ''goals''],
            rows = [(0, [(''name'', PStr ''Alisson''), (''position'', PStr ''G''),
                         (''saves'', PInt 4), (''goals'', PInt 0)]),
                    (1, [(''name'', PStr ''Salah''), (''position'', PStr ''F''),
                         (''saves'', PInt 0), (''goals'', PInt 1)])]\<rparr>"

section \<open>Scraper\<close>

text \<open>
  A \<open>Scraper\<close> holds the match URL and one client object per provider. The providers'
  fetch operations are parameters of the methods.
\<close>

record ('ss, 'us) scraper =
  url :: string
  ss :: 'ss
  us :: 'us

definition Scraper_init :: "'ss \<Rightarrow> 'us \<Rightarrow> string \<Rightarrow> ('ss, 'us) scraper" where
  "Scraper_init sofascore understat u = \<lparr>url = u, ss = sofascore, us = understat\<rparr>"

definition get_team_stats :: "('ss \<Rightarrow> string \<Rightarrow> 'd) \<Rightarrow> ('ss, 'us) scraper \<Rightarrow> 'd" where
  "get_team_stats scrape_team_match_stats self = scrape_team_match_stats (ss self) (url self)"

definition get_understat_match :: "('us \<Rightarrow> string \<Rightarrow> 'd) \<Rightarrow> ('ss, 'us) scraper \<Rightarrow> 'd" where
  "get_understat_match scrape_match self =
     scrape_match (us self) ''https://understat.com/match/26631''"

section \<open>Rendering integers\<close>

text \<open>\<^verbatim>\<open>str(n)\<close> for an integer: decimal digits, with a minus sign when negative.\<close>

definition digit_char :: "nat \<Rightarrow> char" where
  "digit_char d = ''0123456789'' ! d"

fun str_nat :: "nat \<Rightarrow> string" where
  "str_nat n =
     (if n < 10 then [digit_char n] else str_nat (n div 10) @ [digit_char (n mod 10)])"

definition str_int :: "int \<Rightarrow> string" where
  "str_int i = (if i < 0 then ''-'' @ str_nat (nat (- i)) else str_nat (nat i))"

text \<open>The number a string of decimal digits denotes, to state what \<open>str_nat\<close> returns.\<close>

definition nat_of_digits :: "string \<Rightarrow> nat" where
  "nat_of_digits s = foldl (\<lambda>acc c. 10 * acc + (of_char c - 48)) 0 s"

section \<open>LLM: the report generator\<close>

record response =
  status_code :: int
  resp_text :: string

text \<open>What a call of \<^verbatim>\<open>requests.post\<close> does: it raises, or it returns a response.\<close>

datatype post_outcome = PostRaised exn | PostResponse response

text \<open>
  \<^verbatim>\<open>response.json()\<close>: the body parsed; a body that is not JSON raises
  \<^verbatim>\<open>requests.exceptions.JSONDecodeError\<close>, a \<open>RequestException\<close> (requests 2.27 and later).
\<close>

definition response_json :: "(string \<Rightarrow> exn + 'f pyval) \<Rightarrow> response \<Rightarrow> exn + 'f pyval" where
  "response_json loads r =
     (case loads (resp_text r) of Inl e \<Rightarrow> Inl RequestException | Inr v \<Rightarrow> Inr v)"

text \<open>
  The second half of \<open>general_match_report\<close>: the prompt is posted again and the outcome
  printed (the printing is left out). Only a \<open>RequestException\<close> is caught; \<open>.get\<close>
  exists on a dictionary alone.
\<close>

definition second_post :: "(string \<Rightarrow> exn + 'f pyval) \<Rightarrow> post_outcome \<Rightarrow> exn + unit" where
  "second_post loads outcome =
     try_except
       (case outcome of
          PostRaised e \<Rightarrow> Inl e
        | PostResponse r \<Rightarrow>
            if status_code r = 200
            then bind_exn (response_json loads r) (\<lambda>j. getattr_then j ''get'' (Inr ()))
            else Inr ())
       (Inr [CRequestException]) ()"

text \<open>
  \<^verbatim>\<open>LLM.general_match_report(self, prompt)\<close>, given the outcomes of its two calls of
  \<^verbatim>\<open>requests.post\<close>. The first call is outside every \<^verbatim>\<open>try\<close>.
\<close>

definition general_match_report ::
  "(string \<Rightarrow> exn + 'f pyval) \<Rightarrow> string \<Rightarrow> post_outcome \<Rightarrow> post_outcome \<Rightarrow> exn + 'f pyval"
  where
  "general_match_report loads prompt first_outcome second_outcome =
     (case first_outcome of
        PostRaised e \<Rightarrow> Inl e
      | PostResponse response \<Rightarrow>
          bind_exn
            (if status_code response = 200
             then bind_exn (loads (resp_text response)) (\<lambda>data. py_getitem data ''response'')
             else Inr (PStr (''Error:, '' @ str_int (status_code response) @ '', ''
                             @ resp_text response @ '', unluggy no report'')))
            (\<lambda>generated_report.
               bind_exn (second_post loads second_outcome) (\<lambda>u. Inr generated_report)))"


section \<open>Preprocessor: the prompt builder\<close>

definition nl :: string where
  "nl = [CHR 0x0A]"

text \<open>
  \<^verbatim>\<open>f"{v}"\<close> for a value of the match dictionary. The renderings of floats, lists and
  dictionaries are the parameter \<open>other\<close>.
\<close>

definition py_str :: "('f pyval \<Rightarrow> string) \<Rightarrow> 'f pyval \<Rightarrow> string" where
  "py_str other v =
     (case v of
        PNone \<Rightarrow> ''None''
      | PBool b \<Rightarrow> (if b then ''True'' else ''False'')
      | PInt n \<Rightarrow> str_int n
      | PStr s \<Rightarrow> s
      | _ \<Rightarrow> other v)"

text \<open>\<^verbatim>\<open>d[k1][k2]...\<close>: nested subscripts, left to right.\<close>

fun py_path :: "'f pyval \<Rightarrow> string list \<Rightarrow> exn + 'f pyval" where
  "py_path v [] = Inr v"
| "py_path v (k # ks) = bind_exn (py_getitem v k) (\<lambda>x. py_path x ks)"

text \<open>The twelve values \<open>get_team_llm_prompt\<close> reads from the match dictionary.\<close>

record 'f match_info =
  comp :: "'f pyval"
  season :: "'f pyval"
  gw :: "'f pyval"
  home_team :: "'f pyval"
  h_manager :: "'f pyval"
  away_team :: "'f pyval"
  a_manager :: "'f pyval"
  stadium :: "'f pyval"
  ht_h_score :: "'f pyval"
  ft_h_score :: "'f pyval"
  ht_a_score :: "'f pyval"
  ft_a_score :: "'f pyval"

definition read_match_info :: "'f pyval \<Rightarrow> exn + 'f match_info" where
  "read_match_info match_dict =
     bind_exn (py_path match_dict [''tournament'', ''name'']) (\<lambda>v1.
     bind_exn (py_path match_dict [''season'', ''year'']) (\<lambda>v2.
     bind_exn (py_path match_dict [''roundInfo'', ''round'']) (\<lambda>v3.
     bind_exn (py_path match_dict [''homeTeam'', ''name'']) (\<lambda>v4.
     bind_exn (py_path match_dict [''homeTeam'', ''manager'', ''name'']) (\<lambda>v5.
     bind_exn (py_path match_dict [''awayTeam'', ''name'']) (\<lambda>v6.
     bind_exn (py_path match_dict [''awayTeam'', ''manager'', ''name'']) (\<lambda>v7.
     bind_exn (py_path match_dict [''venue'', ''stadium'', ''name'']) (\<lambda>v8.
     bind_exn (py_path match_dict [''homeScore'', ''period1'']) (\<lambda>v9.
     bind_exn (py_path match_dict [''homeScore'', ''current'']) (\<lambda>v10.
     bind_exn (py_path match_dict [''awayScore'', ''period1'']) (\<lambda>v11.
     bind_exn (py_path match_dict [''awayScore'', ''current'']) (\<lambda>v12.
       Inr \<lparr>comp = v1, season = v2, gw = v3, home_team = v4, h_manager = v5,
            away_team = v6, a_manager = v7, stadium = v8, ht_h_score = v9,
            ft_h_score = v10, ht_a_score = v11, ft_a_score = v12\<rparr>))))))))))))"

definition metadata_section :: "('f pyval \<Rightarrow> string) \<Rightarrow> 'f match_info \<Rightarrow> string" where
  "metadata_section other m =
     ''Competition: '' @ py_str other (comp m) @ '' - Season: '' @ py_str other (season m)
       @ '' - Gameweek: '' @ py_str other (gw m) @ '' at Stadium: ''
       @ py_str other (stadium m) @ nl @ nl
     @ ''Home Team: '' @ py_str other (home_team m) @ '', Home Team Manager: ''
       @ py_str other (h_manager m) @ nl @ nl
     @ ''Away Team: '' @ py_str other (away_team m) @ '', Away Team Manager: ''
       @ py_str other (a_manager m) @ nl @ nl
     @ ''Score at half time '' @ py_str other (home_team m) @ '': ''
       @ py_str other (ht_h_score m) @ '', '' @ py_str other (away_team m) @ '': ''
       @ py_str other (ht_a_score m) @ nl @ nl
     @ ''Score at full time '' @ py_str other (home_team m) @ '': ''
       @ py_str other (ft_h_score m) @ '', '' @ py_str other (away_team m) @ '': ''
       @ py_str other (ft_a_score m) @ nl @ nl"

definition closing_instruction :: string where
  "closing_instruction =
     ''Generate an interesting and extensive match report, utilising only the information given.''
     @ ''Start off with the competition, gameweek, teams and score. Do not make ''
     @ ''anything up. Do not assume anything. The only true facts are provided.''"

text \<open>
  The team statistics frame, reduced to the five columns the pivot reads. The key, the
  group and the period of a row are strings. The provider's \<open>home\<close> and \<open>away\<close>
  cells are display strings, which the pivot carries through unchanged and the f-string
  prints as they are; \<open>None\<close> is a missing cell (NaN or None), the one
  \<^verbatim>\<open>pd.notna\<close> rejects.
\<close>

record stat_row =
  key :: string
  stat_group :: string
  period :: string
  home :: "string option"
  away :: "string option"

type_synonym group_key = "string \<times> string \<times> string"

definition row_key :: "stat_row \<Rightarrow> group_key" where
  "row_key r = (key r, stat_group r, period r)"

text \<open>The aggregation \<open>first\<close>: the first cell of the group that is not missing.\<close>

fun first_valid :: "'a option list \<Rightarrow> 'a option" where
  "first_valid [] = None"
| "first_valid (Some x # xs) = Some x"
| "first_valid (None # xs) = first_valid xs"

definition agg_first :: "stat_row list \<Rightarrow> group_key \<Rightarrow> string option \<times> string option" where
  "agg_first game_stats k =
     (let g = filter (\<lambda>r. row_key r = k) game_stats
      in (first_valid (map home g), first_valid (map away g)))"

text \<open>
  \<^verbatim>\<open>pivot_table(index=['key', 'group'], columns='period', values=['home', 'away'],
  aggfunc='first')\<close>, as pandas computes it: the rows are grouped by key, group and period,
  the groups sorted; each group is aggregated; a group with no value at all is dropped;
  the period is moved to the columns; the columns are sorted and a column with no value
  is dropped. The result has one row per (key, group), sorted, and a column (side, period)
  exactly when some group of that period has a value for that side.
\<close>

definition grouped :: "stat_row list \<Rightarrow> (group_key \<times> string option \<times> string option) list" where
  "grouped game_stats =
     filter (\<lambda>(k, h, a). \<not> (h = None \<and> a = None))
       (map (\<lambda>k. (k, agg_first game_stats k)) (sort (remdups (map row_key game_stats))))"

record pivot_frame =
  pindex :: "(string \<times> string) list"
  pcolumns :: "(string \<times> string) list"
  pcells :: "(group_key \<times> string option \<times> string option) list"

definition pivot_table :: "stat_row list \<Rightarrow> pivot_frame" where
  "pivot_table game_stats =
     (let g = grouped game_stats in
      \<lparr>pindex = sort (remdups (map (\<lambda>((k, c, p), h, a). (k, c)) g)),
       pcolumns = sort (remdups
          (map (\<lambda>((k, c, p), h, a). (''away'', p)) (filter (\<lambda>(t, h, a). a \<noteq> None) g)
           @ map (\<lambda>((k, c, p), h, a). (''home'', p)) (filter (\<lambda>(t, h, a). h \<noteq> None) g))),
       pcells = g\<rparr>)"

text \<open>
  \<^verbatim>\<open>row[(side, period)]\<close> on a row of the pivoted frame: a \<open>KeyError\<close> when the frame has
  no such column, else the cell, missing when the group has no value there.
\<close>

definition row_get ::
  "pivot_frame \<Rightarrow> string \<times> string \<Rightarrow> string \<times> string \<Rightarrow> exn + string option" where
  "row_get pv idx col =
     (if col \<in> set (pcolumns pv)
      then Inr (case map_of (pcells pv) (fst idx, snd idx, snd col) of
                  None \<Rightarrow> None
                | Some (h, a) \<Rightarrow> if fst col = ''home'' then h else a)
      else Inl (KeyError [fst col, snd col]))"

text \<open>The \<^verbatim>\<open>if\<close>/\<^verbatim>\<open>elif\<close> chain on \<^verbatim>\<open>pd.notna\<close> of the two cells.\<close>

definition period_clause :: "string \<Rightarrow> string option \<Rightarrow> string option \<Rightarrow> string" where
  "period_clause p h a =
     (if h \<noteq> None \<and> a \<noteq> None
        then p @ '': Home '' @ the h @ '', Away '' @ the a @ ''; ''
      else if h \<noteq> None then p @ '': Home '' @ the h @ ''; ''
      else if a \<noteq> None then p @ '': Away '' @ the a @ ''; ''
      else [])"

fun periods_loop ::
  "pivot_frame \<Rightarrow> string \<times> string \<Rightarrow> string list \<Rightarrow> string \<Rightarrow> exn + string" where
  "periods_loop pv idx [] prompt = Inr prompt"
| "periods_loop pv idx (p # ps) prompt =
     (case row_get pv idx (''home'', p) of
        Inl e \<Rightarrow> Inl e
      | Inr h \<Rightarrow>
          (case row_get pv idx (''away'', p) of
             Inl e \<Rightarrow> Inl e
           | Inr a \<Rightarrow> periods_loop pv idx ps (prompt @ period_clause p h a)))"

fun rows_loop :: "pivot_frame \<Rightarrow> (string \<times> string) list \<Rightarrow> string \<Rightarrow> exn + string" where
  "rows_loop pv [] prompt = Inr prompt"
| "rows_loop pv (idx # rest) prompt =
     (case periods_loop pv idx [''ALL'', ''1ST'', ''2ND''] (prompt @ fst idx @ '': '') of
        Inl e \<Rightarrow> Inl e
      | Inr prompt' \<Rightarrow> rows_loop pv rest (prompt' @ nl @ nl))"

definition get_team_llm_prompt ::
  "('f pyval \<Rightarrow> string) \<Rightarrow> stat_row list \<Rightarrow> 'f pyval \<Rightarrow> exn + string" where
  "get_team_llm_prompt other game_stats match_dict =
     bind_exn (read_match_info match_dict) (\<lambda>m.
     bind_exn (rows_loop (pivot_table game_stats) (pindex (pivot_table game_stats))
                 (''Match Stats Summary: '' @ nl @ nl)) (\<lambda>prompt.
       Inr (prompt @ metadata_section other m @ closing_instruction)))"

text \<open>
  What section 4.4 of the specification says of one group: its name, then for each of the
  three periods in the order full, first half, second half the clause for the sides that
  have a value, then a blank line.
\<close>

fun spec_clause :: "string \<Rightarrow> string option \<times> string option \<Rightarrow> string" where
  "spec_clause p (Some x, Some y) = p @ '': Home '' @ x @ '', Away '' @ y @ ''; ''"
| "spec_clause p (Some x, None) = p @ '': Home '' @ x @ ''; ''"
| "spec_clause p (None, Some y) = p @ '': Away '' @ y @ ''; ''"
| "spec_clause p (None, None) = []"

definition spec_group :: "stat_row list \<Rightarrow> string \<times> string \<Rightarrow> string" where
  "spec_group game_stats idx =
     fst idx @ '': ''
     @ spec_clause ''ALL'' (agg_first game_stats (fst idx, snd idx, ''ALL''))
     @ spec_clause ''1ST'' (agg_first game_stats (fst idx, snd idx, ''1ST''))
     @ spec_clause ''2ND'' (agg_first game_stats (fst idx, snd idx, ''2ND''))
     @ nl @ nl"

text \<open>The match dictionary of the end-to-end scenario, for given managers and stadium.\<close>

definition scenario_match :: "string \<Rightarrow> string \<Rightarrow> string \<Rightarrow> 'f pyval" where
  "scenario_match manager_h manager_a venue =
     PDict [(''tournament'', PDict [(''name'', PStr ''Premier League'')]),
            (''season'', PDict [(''year'', PInt 2024)]),
            (''roundInfo'', PDict [(''round'', PInt 10)]),
            (''homeTeam'', PDict [(''name'', PStr ''Liverpool''),
                                  (''manager'', PDict [(''name'', PStr manager_h)])]),
            (''awayTeam'', PDict [(''name'', PStr ''Man Utd''),
                                  (''manager'', PDict [(''name'', PStr manager_a)])]),
            (''venue'', PDict [(''stadium'', PDict [(''name'', PStr venue)])]),
            (''homeScore'', PDict [(''period1'', PInt 1), (''current'', PInt 2)]),
            (''awayScore'', PDict [(''period1'', PInt 0), (''current'', PInt 1)])]"

text \<open>The statistics of the end-to-end scenario: one row, for the full match.\<close>

definition possession_only :: "stat_row list" where
  "possession_only =
     [\<lparr>key = ''Possession'', stat_group = ''General'', period = ''ALL'',
       home = Some ''60'', away = Some ''40''\<rparr>]"

text \<open>The same statistic, with a row of missing cells for each half.\<close>

definition possession_padded :: "stat_row list" where
  "possession_padded =
     [\<lparr>key = ''Possession'', stat_group = ''General'', period = ''ALL'',
       home = Some ''60'', away = Some ''40''\<rparr>,
      \<lparr>key = ''Possession'', stat_group = ''General'', period = ''1ST'',
       home = None, away = None\<rparr>,
      \<lparr>key = ''Possession'', stat_group = ''General'', period = ''2ND'',
       home = None, away = None\<rparr>]"

text \<open>
  Three groups, in no particular order, that between them have a value for each side in
  each period: Corners has nothing for the full match, Shots only a home value and
  Corners only an away value for the first half.
\<close>

definition full_stats :: "stat_row list" where
  "full_stats =
     [\<lparr>key = ''Shots'', stat_group = ''Attack'', period = ''ALL'',
       home = Some ''12'', away = Some ''7''\<rparr>,
      \<lparr>key = ''Possession'', stat_group = ''General'', period = ''ALL'',
       home = Some ''60%'', away = Some ''40%''\<rparr>,
      \<lparr>key = ''Shots'', stat_group = ''Attack'', period = ''1ST'',
       home = Some ''5'', away = None\<rparr>,
      \<lparr>key = ''Corners'', stat_group = ''Attack'', period = ''1ST'',
       home = None, away = Some ''2''\<rparr>,
      \<lparr>key = ''Possession'', stat_group = ''General'', period = ''2ND'',
       home = None, away = Some ''45%''\<rparr>,
      \<lparr>key = ''Shots'', stat_group = ''Attack'', period = ''2ND'',
       home = Some ''7'', away = Some ''3''\<rparr>]"

text \<open>
  The example of the specification's period-omission property: one group with only a
  home value for the full match. And two groups that have both values for the full match
  and nothing for the halves.
\<close>

definition home_only :: "stat_row list" where
  "home_only =
     [\<lparr>key = ''Possession'', stat_group = ''General'', period = ''ALL'',
       home = Some ''60'', away = None\<rparr>]"

definition full_match_only :: "stat_row list" where
  "full_match_only =
     [\<lparr>key = ''Shots'', stat_group = ''Attack'', period = ''ALL'',
       home = Some ''12'', away = Some ''7''\<rparr>,
      \<lparr>key = ''Corners'', stat_group = ''Attack'', period = ''ALL'',
       home = Some ''4'', away = Some ''2''\<rparr>]"

text \<open>The scenario's match dictionary with the managers and the stadium filled in.\<close>

definition anfield_match :: "unit pyval" where
  "anfield_match = scenario_match ''Arne Slot'' ''Erik ten Hag'' ''Anfield''"

definition anfield_info :: "unit match_info" where
  "anfield_info =
     \<lparr>comp = PStr ''Premier League'', season = PInt 2024, gw = PInt 10,
      home_team = PStr ''Liverpool'', h_manager = PStr ''Arne Slot'',
      away_team = PStr ''Man Utd'', a_manager = PStr ''Erik ten Hag'',
      stadium = PStr ''Anfield'', ht_h_score = PInt 1, ft_h_score = PInt 2,
      ht_a_score = PInt 0, ft_a_score = PInt 1\<rparr>"

text \<open>A rendering for floats, lists and dictionaries, for inputs that hold none.\<close>

definition no_other :: "unit pyval \<Rightarrow> string" where
  "no_other v = []"

text \<open>The six columns the loop reads from every row of the pivoted frame.\<close>

definition period_columns :: "(string \<times> string) list" where
  "period_columns =
     [(''home'', ''ALL''), (''away'', ''ALL''), (''home'', ''1ST''), (''away'', ''1ST''),
      (''home'', ''2ND''), (''away'', ''2ND'')]"

text \<open>The prompt as the specification describes it, for the groups of the pivoted frame.\<close>

definition prompt_text :: "('f pyval \<Rightarrow> string) \<Rightarrow> stat_row list \<Rightarrow> 'f match_info \<Rightarrow> string" where
  "prompt_text other game_stats m =
     ''Match Stats Summary: '' @ nl @ nl
     @ concat (map (spec_group game_stats) (pindex (pivot_table game_stats)))
     @ metadata_section other m @ closing_instruction"

section \<open>The extractors: results\<close>

lemma no_loads_attr: "''loads'' \<notin> set (builtin_attrs v)"
  by (cases v)
     (simp_all add: str_attrs_def dict_attrs_def list_attrs_def int_attrs_def float_attrs_def)

lemma no_JSONDecodeError_attr: "''JSONDecodeError'' \<notin> set (builtin_attrs v)"
  by (cases v)
     (simp_all add: str_attrs_def dict_attrs_def list_attrs_def int_attrs_def float_attrs_def)

lemma rating_handler_classes_raises:
  "rating_handler_classes json = Inl (AttributeError ''JSONDecodeError'')"
  unfolding rating_handler_classes_def getattr_then_def
  using no_JSONDecodeError_attr [of json] by simp

lemma getattr_loads_raises: "getattr_then v ''loads'' k = Inl (AttributeError ''loads'')"
  unfolding getattr_then_def using no_loads_attr [of v] by simp

lemma extract_rating_str:
  "extract_rating ops loads (PStr s) = Inl (AttributeError ''JSONDecodeError'')"
  unfolding extract_rating_def
  by (simp add: try_except_def bind_exn_def getattr_loads_raises
      rating_handler_classes_raises)

lemma extract_rating_dict_missing:
  "map_of d ''original'' = None \<Longrightarrow>
   extract_rating ops loads (PDict d) = Inl (AttributeError ''JSONDecodeError'')"
  by (simp add: extract_rating_def try_except_def bind_exn_def rating_handler_classes_raises)

lemma extract_rating_dict_float:
  "map_of d ''original'' = Some (PFloat x) \<Longrightarrow>
   extract_rating ops loads (PDict d) = Inr (PFloat x)"
  by (simp add: extract_rating_def try_except_def bind_exn_def)

text \<open>
  C1. The rating normalizer is claimed never to raise and to yield null on every failure
  path. On the code, a JSON string that holds a rating, such as \<open>{"original": 7.5}\<close>,
  raises \<open>AttributeError\<close> (whatever the parser would do with it), and so does a
  dictionary without the key \<open>original\<close>: the expected result was the rating 7.5
  in the first case and null in the second.
\<close>

theorem extract_rating_raises_on_string:
  "extract_rating ops loads (PStr (''{'' @ [CHR 0x22] @ ''original'' @ [CHR 0x22] @ '': 7.5}''))
     = Inl (AttributeError ''JSONDecodeError'')
   \<and> extract_rating ops loads (PDict []) = Inl (AttributeError ''JSONDecodeError'')"
  by (simp add: extract_rating_str extract_rating_dict_missing)

text \<open>
  C9. An integer rating is neither a float, a string nor a dictionary: the normalizer
  returns null for it, not the number.
\<close>

theorem extract_rating_int_is_null:
  "extract_rating ops loads (PInt n) = Inr PNone"
  by (simp add: extract_rating_def)

text \<open>
  C3. The country name extractor is claimed to return null for a null or non-mapping
  input. On the code only a missing key is caught: the subscript of None raises
  \<open>TypeError\<close>, which the handler does not list, while a dictionary is handled as
  claimed.
\<close>

theorem extract_country_name_none_raises:
  "extract_country_name (PNone :: 'f pyval) = Inl TypeError
   \<and> extract_country_name (PDict [(''name'', PStr ''Spain'')] :: 'f pyval) = Inr (PStr ''Spain'')
   \<and> extract_country_name (PDict [] :: 'f pyval) = Inr PNone"
  by (simp add: extract_country_name_def try_except_def exn_isinstance_def)

section \<open>The position filter: results\<close>

lemma try_drop_columns_absent:
  "\<not> set labels \<subseteq> set (columns df) \<Longrightarrow> try_drop_columns labels df = df"
  by (auto simp: try_drop_columns_def drop_columns_def list_all_iff)

lemma position_kept:
  "''position'' \<notin> set labels \<Longrightarrow> ''position'' \<in> set (columns df) \<Longrightarrow>
   ''position'' \<in> set (columns (try_drop_columns labels df))"
  by (auto simp: try_drop_columns_def drop_columns_def list_all_iff)

lemma position_not_outfield_drop: "''position'' \<notin> set outfield_drop_list"
  by (simp add: outfield_drop_list_def)

lemma preprocess_outfield_keeps_rows:
  assumes "''position'' \<in> set (columns df)"
  shows "\<exists>out. preprocess_outfield df = Inr out \<and> map fst (rows out) = map fst (rows df)"
  using assms position_kept [OF position_not_outfield_drop assms]
  by (auto simp: preprocess_outfield_def Let_def bind_exn_def position_equals_def
      try_drop_columns_def drop_columns_def o_def split_def)

text \<open>
  C2. The goalkeeper and outfield subsets are claimed to be disjoint. On the code the
  outfield subset is the whole frame (\<open>preprocess_outfield_keeps_rows\<close>): the frame
  without the goalkeepers is computed, for the position \<open>GK\<close> that no record has, and
  then discarded. At the frame \<open>squad\<close> the goalkeeper of index 0 is in both subsets.
\<close>

theorem goalkeeper_in_both_subsets:
  "preprocess_gk (squad :: 'f dataframe)
     = Inr \<lparr>columns = [''name'', ''position'', ''saves'', ''goals''],
            rows = [(0, [(''name'', PStr ''Alisson''), (''position'', PStr ''G''),
                         (''saves'', PInt 4), (''goals'', PInt 0)])]\<rparr>
   \<and> preprocess_outfield (squad :: 'f dataframe) = Inr squad"
  by (simp add: squad_def preprocess_gk_def preprocess_outfield_def Let_def bind_exn_def
      position_equals_def try_drop_columns_def drop_columns_def gk_drop_list_def
      outfield_drop_list_def drop_rows_def)

text \<open>
  C8. For a frame that has its \<open>position\<close> column, both shaping steps return a frame
  whichever columns of their drop lists are absent; when one is absent the drop is
  skipped as a whole, so the goalkeeper subset keeps the columns of the input and the
  outfield step returns its input unchanged.
\<close>

theorem pruning_tolerates_missing_columns:
  assumes "''position'' \<in> set (columns df)"
  shows "\<exists>gk out. preprocess_gk df = Inr gk \<and> preprocess_outfield df = Inr out
           \<and> (\<not> set gk_drop_list \<subseteq> set (columns df) \<longrightarrow> columns gk = columns df)
           \<and> (\<not> set outfield_drop_list \<subseteq> set (columns df) \<longrightarrow> out = df)"
proof -
  let ?sel = "df\<lparr>rows := filter (\<lambda>(i, cells). map_of cells ''position'' = Some (PStr ''G''))
                             (rows df)\<rparr>"
  have gk: "preprocess_gk df = Inr (try_drop_columns gk_drop_list ?sel)"
    using assms by (simp add: preprocess_gk_def position_equals_def bind_exn_def)
  have gk_cols: "\<not> set gk_drop_list \<subseteq> set (columns df) \<Longrightarrow>
      columns (try_drop_columns gk_drop_list ?sel) = columns df"
    using try_drop_columns_absent [of gk_drop_list ?sel] by simp
  have pos: "''position'' \<in> set (columns (try_drop_columns outfield_drop_list df))"
    using position_kept [OF position_not_outfield_drop assms] .
  have out: "preprocess_outfield df = Inr (try_drop_columns outfield_drop_list df)"
    using pos by (simp add: preprocess_outfield_def Let_def position_equals_def bind_exn_def)
  have out_same: "\<not> set outfield_drop_list \<subseteq> set (columns df) \<Longrightarrow>
      try_drop_columns outfield_drop_list df = df"
    by (rule try_drop_columns_absent)
  show ?thesis using gk gk_cols out out_same by blast
qed

theorem pruning_tolerates_missing_columns_witness:
  "''position'' \<in> set (columns (squad :: 'f dataframe)) \<and>
   \<not> set gk_drop_list \<subseteq> set (columns (squad :: 'f dataframe)) \<and>
   \<not> set outfield_drop_list \<subseteq> set (columns (squad :: 'f dataframe)) \<and>
   (\<exists>gk out. preprocess_gk (squad :: 'f dataframe) = Inr gk
       \<and> preprocess_outfield (squad :: 'f dataframe) = Inr out
       \<and> columns gk = columns (squad :: 'f dataframe) \<and> out = squad)"
  using pruning_tolerates_missing_columns [of "squad :: 'f dataframe"]
  by (simp add: squad_def gk_drop_list_def outfield_drop_list_def)

section \<open>The scraper and the report generator: results\<close>

text \<open>
  C10. The fetch from the secondary provider does not read the URL the scraper was built
  with: two scrapers built with any two URLs ask the provider for the same fixed match,
  \<open>https://understat.com/match/26631\<close>.
\<close>

theorem get_understat_match_ignores_url:
  "get_understat_match scrape_match (Scraper_init sofascore understat u1)
     = get_understat_match scrape_match (Scraper_init sofascore understat u2)
   \<and> get_understat_match scrape_match (Scraper_init sofascore understat u1)
     = scrape_match understat ''https://understat.com/match/26631''"
  by (simp add: get_understat_match_def Scraper_init_def)

lemma second_post_quiet:
  "second_post loads (PostRaised RequestException) = Inr ()"
  "status_code r \<noteq> 200 \<Longrightarrow> second_post loads (PostResponse r) = Inr ()"
  "status_code r = 200 \<Longrightarrow> loads (resp_text r) = Inl e \<Longrightarrow>
     second_post loads (PostResponse r) = Inr ()"
  "status_code r = 200 \<Longrightarrow> loads (resp_text r) = Inr (PDict d) \<Longrightarrow>
     second_post loads (PostResponse r) = Inr ()"
  by (simp_all add: second_post_def try_except_def bind_exn_def response_json_def
      getattr_then_def dict_attrs_def exn_isinstance_def)

text \<open>
  After a first answer with a status other than 200 the function returns the error string
  built from that answer, provided the second post does not raise out of its handler
  (for instance in the four cases of \<open>second_post_quiet\<close>).
\<close>

lemma report_fallback_returned:
  assumes "status_code r \<noteq> 200" and "second_post loads outcome = Inr ()"
  shows "general_match_report loads prompt (PostResponse r) outcome
         = Inr (PStr (''Error:, '' @ str_int (status_code r) @ '', '' @ resp_text r
                      @ '', unluggy no report''))"
  using assms by (simp add: general_match_report_def bind_exn_def)



section \<open>Rendering integers: results\<close>

text \<open>
  \<open>str_nat\<close> returns decimal digits only, and they denote the number; so the text of a
  status code determines the code.
\<close>

lemma digit_char_code: "d < 10 \<Longrightarrow> of_char (digit_char d) = (48 + d :: nat)"
proof -
  assume "d < 10"
  then have "d \<in> {0, 1, 2, 3, 4, 5, 6, 7, 8, 9}" by auto
  then show ?thesis by (auto simp: digit_char_def)
qed

lemma nat_of_digits_snoc:
  "nat_of_digits (s @ [c]) = 10 * nat_of_digits s + (of_char c - 48)"
  by (simp add: nat_of_digits_def)

lemma str_nat_value: "nat_of_digits (str_nat n) = n"
proof (induction n rule: str_nat.induct)
  case (1 n)
  show ?case
  proof (cases "n < 10")
    case True
    then show ?thesis
      using digit_char_code [of n] by (simp add: nat_of_digits_def)
  next
    case False
    have "n mod 10 < 10" by simp
    then have d: "of_char (digit_char (n mod 10)) = (48 + n mod 10 :: nat)"
      by (rule digit_char_code)
    have "str_nat n = str_nat (n div 10) @ [digit_char (n mod 10)]"
      using False by (subst str_nat.simps) simp
    then have "nat_of_digits (str_nat n) = 10 * nat_of_digits (str_nat (n div 10)) + n mod 10"
      using d by (simp add: nat_of_digits_snoc)
    also have "\<dots> = 10 * (n div 10) + n mod 10" using 1 False by simp
    also have "\<dots> = n" by simp
    finally show ?thesis .
  qed
qed

lemma str_nat_digits: "set (str_nat n) \<subseteq> set ''0123456789''"
proof (induction n rule: str_nat.induct)
  case (1 n)
  have dc: "digit_char d \<in> set ''0123456789''" if "d < 10" for d
  proof -
    from that have "d \<in> {0, 1, 2, 3, 4, 5, 6, 7, 8, 9}" by auto
    then show ?thesis by (auto simp: digit_char_def)
  qed
  show ?case
  proof (cases "n < 10")
    case True
    then show ?thesis using dc [of n] by (subst str_nat.simps) simp
  next
    case False
    have "str_nat n = str_nat (n div 10) @ [digit_char (n mod 10)]"
      using False by (subst str_nat.simps) simp
    then show ?thesis using 1 False dc [of "n mod 10"] by simp
  qed
qed

lemma str_int_examples:
  "str_int 0 = ''0''" "str_int 7 = ''7''" "str_int 200 = ''200''" "str_int 404 = ''404''"
  "str_int 503 = ''503''" "str_int (- 1) = ''-1''"
  by (simp_all add: str_int_def digit_char_def)


section \<open>The prompt builder: results\<close>

lemma pivot_possession_only:
  "pivot_table possession_only =
     \<lparr>pindex = [(''Possession'', ''General'')],
      pcolumns = [(''away'', ''ALL''), (''home'', ''ALL'')],
      pcells = [((''Possession'', ''General'', ''ALL''), Some ''60'', Some ''40'')]\<rparr>"
  by code_simp

lemma pivot_possession_padded: "pivot_table possession_padded = pivot_table possession_only"
  by code_simp

lemma read_scenario_match:
  "read_match_info (scenario_match a b c) =
     Inr \<lparr>comp = PStr ''Premier League'', season = PInt 2024, gw = PInt 10,
          home_team = PStr ''Liverpool'', h_manager = PStr a, away_team = PStr ''Man Utd'',
          a_manager = PStr b, stadium = PStr c, ht_h_score = PInt 1, ft_h_score = PInt 2,
          ht_a_score = PInt 0, ft_a_score = PInt 1\<rparr>"
  by (simp add: read_match_info_def scenario_match_def bind_exn_def)

text \<open>
  C5. The end-to-end scenario: one statistic, Possession in the group General, with the
  full-match values 60 and 40 and no value for either half, and the match dictionary of
  Liverpool against Man Utd. The output is claimed to contain the Possession clause and
  the two score lines. On the code the pivoted frame of this input has the two columns
  of the period ALL only, so the lookup of the column (home, 1ST) raises \<open>KeyError\<close>
  and no prompt is returned, whatever the managers and the stadium are, and whether the
  halves have no row or a row of missing cells.
\<close>

theorem scenario_raises:
  "get_team_llm_prompt other possession_only (scenario_match a b c)
     = Inl (KeyError [''home'', ''1ST''])
   \<and> get_team_llm_prompt other possession_padded (scenario_match a b c)
     = Inl (KeyError [''home'', ''1ST''])"
  by (simp add: get_team_llm_prompt_def read_scenario_match pivot_possession_padded
      pivot_possession_only bind_exn_def row_get_def)

lemma period_clause_spec: "period_clause p h a = spec_clause p (h, a)"
  by (cases h; cases a) (simp_all add: period_clause_def)

lemma map_of_filter_graph:
  "map_of (filter P (map (\<lambda>k. (k, f k)) xs)) t =
     (if t \<in> set xs \<and> P (t, f t) then Some (f t) else None)"
  by (induction xs) auto

lemma agg_first_absent:
  "t \<notin> set (map row_key game_stats) \<Longrightarrow> agg_first game_stats t = (None, None)"
proof -
  assume "t \<notin> set (map row_key game_stats)"
  then have "filter (\<lambda>r. row_key r = t) game_stats = []"
    by (auto simp: filter_empty_conv)
  then show ?thesis by (simp add: agg_first_def)
qed

lemma pivot_cell:
  "(case map_of (pcells (pivot_table game_stats)) t of
      None \<Rightarrow> None | Some (h, a) \<Rightarrow> if fst col = ''home'' then h else a)
   = (if fst col = ''home'' then fst (agg_first game_stats t) else snd (agg_first game_stats t))"
proof (cases "t \<in> set (map row_key game_stats)")
  case True
  then show ?thesis
    by (cases "agg_first game_stats t")
       (auto simp: pivot_table_def Let_def grouped_def map_of_filter_graph)
next
  case False
  then show ?thesis
    using agg_first_absent [OF False]
    by (auto simp: pivot_table_def Let_def grouped_def map_of_filter_graph)
qed

lemma row_get_pivot:
  "row_get (pivot_table game_stats) idx col =
     (if col \<in> set (pcolumns (pivot_table game_stats))
      then Inr (if fst col = ''home'' then fst (agg_first game_stats (fst idx, snd idx, snd col))
                else snd (agg_first game_stats (fst idx, snd idx, snd col)))
      else Inl (KeyError [fst col, snd col]))"
  unfolding row_get_def by (simp only: pivot_cell)

lemma periods_loop_result:
  "periods_loop (pivot_table game_stats) idx ps prompt = Inr out \<Longrightarrow>
   out = prompt @ concat (map (\<lambda>p. spec_clause p (agg_first game_stats (fst idx, snd idx, p))) ps)"
proof (induction ps arbitrary: prompt)
  case Nil
  then show ?case by simp
next
  case (Cons p ps)
  from Cons.prems obtain h a where
    h: "row_get (pivot_table game_stats) idx (''home'', p) = Inr h" and
    a: "row_get (pivot_table game_stats) idx (''away'', p) = Inr a" and
    rest: "periods_loop (pivot_table game_stats) idx ps (prompt @ period_clause p h a) = Inr out"
    by (auto split: sum.splits)
  have hv: "h = fst (agg_first game_stats (fst idx, snd idx, p))"
    using h by (simp add: row_get_pivot split: if_splits)
  have av: "a = snd (agg_first game_stats (fst idx, snd idx, p))"
    using a by (simp add: row_get_pivot split: if_splits)
  have "period_clause p h a = spec_clause p (agg_first game_stats (fst idx, snd idx, p))"
    by (simp add: period_clause_spec hv av)
  with Cons.IH [OF rest] show ?case by simp
qed

lemma periods_loop_returns:
  "\<forall>p \<in> set ps. (''home'', p) \<in> set (pcolumns (pivot_table game_stats))
        \<and> (''away'', p) \<in> set (pcolumns (pivot_table game_stats)) \<Longrightarrow>
   \<exists>out. periods_loop (pivot_table game_stats) idx ps prompt = Inr out"
  by (induction ps arbitrary: prompt) (simp_all add: row_get_pivot)

lemma rows_loop_result:
  "rows_loop (pivot_table game_stats) idxs prompt = Inr out \<Longrightarrow>
   out = prompt @ concat (map (spec_group game_stats) idxs)"
proof (induction idxs arbitrary: prompt)
  case Nil
  then show ?case by simp
next
  case (Cons idx idxs)
  from Cons.prems obtain mid where
    mid: "periods_loop (pivot_table game_stats) idx [''ALL'', ''1ST'', ''2ND'']
            (prompt @ fst idx @ '': '') = Inr mid" and
    rest: "rows_loop (pivot_table game_stats) idxs (mid @ nl @ nl) = Inr out"
    by (auto split: sum.splits)
  have "mid @ nl @ nl = prompt @ spec_group game_stats idx"
    using periods_loop_result [OF mid] by (simp add: spec_group_def)
  with Cons.IH [OF rest] show ?case by simp
qed

lemma rows_loop_returns:
  assumes "set period_columns \<subseteq> set (pcolumns (pivot_table game_stats))"
  shows "\<exists>out. rows_loop (pivot_table game_stats) idxs prompt = Inr out"
proof (induction idxs arbitrary: prompt)
  case Nil
  then show ?case by simp
next
  case (Cons idx idxs)
  have "\<forall>p \<in> set [''ALL'', ''1ST'', ''2ND''].
          (''home'', p) \<in> set (pcolumns (pivot_table game_stats))
          \<and> (''away'', p) \<in> set (pcolumns (pivot_table game_stats))"
    using assms by (simp add: period_columns_def)
  from periods_loop_returns [OF this] obtain mid where
    "periods_loop (pivot_table game_stats) idx [''ALL'', ''1ST'', ''2ND'']
       (prompt @ fst idx @ '': '') = Inr mid" by blast
  with Cons.IH [of "mid @ nl @ nl"] show ?case by simp
qed

text \<open>
  Where the pivoted frame has the six columns, the function returns a prompt, and every
  prompt it returns is the header, then one section per group of the pivoted frame as the
  specification words it (\<open>spec_group\<close>), then the metadata and the closing instruction.
\<close>

lemma returned_prompt_text:
  assumes "read_match_info match_dict = Inr m"
    and "get_team_llm_prompt other game_stats match_dict = Inr prompt"
  shows "prompt = prompt_text other game_stats m"
proof -
  from assms obtain out where
    out: "rows_loop (pivot_table game_stats) (pindex (pivot_table game_stats))
            (''Match Stats Summary: '' @ nl @ nl) = Inr out" and
    p: "prompt = out @ metadata_section other m @ closing_instruction"
    by (auto simp: get_team_llm_prompt_def bind_exn_def split: sum.splits)
  show ?thesis using rows_loop_result [OF out] p by (simp add: prompt_text_def)
qed

lemma prompt_returned:
  assumes "read_match_info match_dict = Inr m"
    and "set period_columns \<subseteq> set (pcolumns (pivot_table game_stats))"
  shows "get_team_llm_prompt other game_stats match_dict
           = Inr (prompt_text other game_stats m)"
proof -
  from rows_loop_returns [OF assms(2)] obtain out where
    out: "rows_loop (pivot_table game_stats) (pindex (pivot_table game_stats))
            (''Match Stats Summary: '' @ nl @ nl) = Inr out" by blast
  then have r: "get_team_llm_prompt other game_stats match_dict
               = Inr (out @ metadata_section other m @ closing_instruction)"
    using assms(1) by (simp add: get_team_llm_prompt_def bind_exn_def)
  then show ?thesis using returned_prompt_text [OF assms(1) r] by simp
qed

lemma pivot_home_only:
  "pivot_table home_only =
     \<lparr>pindex = [(''Possession'', ''General'')],
      pcolumns = [(''home'', ''ALL'')],
      pcells = [((''Possession'', ''General'', ''ALL''), Some ''60'', None)]\<rparr>"
  by code_simp

lemma pivot_full_match_only:
  "pivot_table full_match_only =
     \<lparr>pindex = [(''Corners'', ''Attack''), (''Shots'', ''Attack'')],
      pcolumns = [(''away'', ''ALL''), (''home'', ''ALL'')],
      pcells = [((''Corners'', ''Attack'', ''ALL''), Some ''4'', Some ''2''),
                ((''Shots'', ''Attack'', ''ALL''), Some ''12'', Some ''7'')]\<rparr>"
  by code_simp

text \<open>
  C4. A period with a value for one side only is claimed to yield a clause with that side
  alone, and a period without values to yield no clause. On the code this holds only
  where the pivoted frame has all six columns (\<open>returned_prompt_text\<close>). A group with
  only a home value for the full match, the specification's own example, has no column
  (away, ALL) in its pivoted frame, and the lookup raises \<open>KeyError\<close> instead of
  giving the clause with Home alone; two groups with values for the full match only
  raise at the column (home, 1ST) instead of leaving the halves out.
\<close>

theorem missing_side_or_period_raises:
  "get_team_llm_prompt other home_only (scenario_match a b c)
     = Inl (KeyError [''away'', ''ALL''])
   \<and> get_team_llm_prompt other full_match_only (scenario_match a b c)
     = Inl (KeyError [''home'', ''1ST''])"
  by (simp add: get_team_llm_prompt_def read_scenario_match pivot_home_only
      pivot_full_match_only bind_exn_def row_get_def)

lemma read_anfield_match: "read_match_info anfield_match = Inr anfield_info"
  by (simp add: anfield_match_def anfield_info_def read_scenario_match)

lemma pivot_full_stats:
  "pivot_table full_stats =
     \<lparr>pindex = [(''Corners'', ''Attack''), (''Possession'', ''General''), (''Shots'', ''Attack'')],
      pcolumns = [(''away'', ''1ST''), (''away'', ''2ND''), (''away'', ''ALL''),
                  (''home'', ''1ST''), (''home'', ''2ND''), (''home'', ''ALL'')],
      pcells = [((''Corners'', ''Attack'', ''1ST''), None, Some ''2''),
                ((''Possession'', ''General'', ''2ND''), None, Some ''45%''),
                ((''Possession'', ''General'', ''ALL''), Some ''60%'', Some ''40%''),
                ((''Shots'', ''Attack'', ''1ST''), Some ''5'', None),
                ((''Shots'', ''Attack'', ''2ND''), Some ''7'', Some ''3''),
                ((''Shots'', ''Attack'', ''ALL''), Some ''12'', Some ''7'')]\<rparr>"
  by code_simp

lemma full_stats_groups:
  "concat (map (spec_group full_stats)
      [(''Corners'', ''Attack''), (''Possession'', ''General''), (''Shots'', ''Attack'')])
   = ''Corners: 1ST: Away 2; '' @ nl @ nl
     @ ''Possession: ALL: Home 60%, Away 40%; 2ND: Away 45%; '' @ nl @ nl
     @ ''Shots: ALL: Home 12, Away 7; 1ST: Home 5; 2ND: Home 7, Away 3; '' @ nl @ nl"
  by code_simp



lemma prompt_full_stats:
  "get_team_llm_prompt no_other full_stats anfield_match
       = Inr (''Match Stats Summary: '' @ nl @ nl
              @ (''Corners: 1ST: Away 2; '' @ nl @ nl
                 @ ''Possession: ALL: Home 60%, Away 40%; 2ND: Away 45%; '' @ nl @ nl
                 @ ''Shots: ALL: Home 12, Away 7; 1ST: Home 5; 2ND: Home 7, Away 3; '' @ nl @ nl)
              @ metadata_section no_other anfield_info @ closing_instruction)"
proof -
  have cols: "set period_columns \<subseteq> set (pcolumns (pivot_table full_stats))"
    by (simp add: pivot_full_stats period_columns_def)
  have idx: "pindex (pivot_table full_stats)
             = [(''Corners'', ''Attack''), (''Possession'', ''General''), (''Shots'', ''Attack'')]"
    by (simp add: pivot_full_stats)
  show ?thesis
    using prompt_returned [OF read_anfield_match cols, of no_other]
    unfolding prompt_text_def idx full_stats_groups .
qed

lemma filter_key_permuted:
  assumes "distinct (map f xs)" and "mset xs = mset ys"
  shows "filter (\<lambda>r. f r = k) xs = filter (\<lambda>r. f r = k) ys"
proof -
  let ?A = "filter (\<lambda>r. f r = k) xs" and ?B = "filter (\<lambda>r. f r = k) ys"
  have m: "mset ?A = mset ?B" using assms(2) by (simp add: mset_filter)
  have d: "distinct (map f ?A)" using assms(1) by (rule distinct_map_filter)
  have all_k: "\<forall>r \<in> set ?A. f r = k" by simp
  have short: "length ?A \<le> 1"
  proof (cases ?A)
    case Nil
    then show ?thesis by simp
  next
    case (Cons a as)
    have "as = []"
    proof (cases as)
      case Nil
      then show ?thesis .
    next
      case (Cons b bs)
      with \<open>?A = a # as\<close> all_k have "f a = k" "f b = k"
        by (metis list.set_intros(1), metis list.set_intros(1,2))
      with d \<open>?A = a # as\<close> Cons show ?thesis by simp
    qed
    with Cons show ?thesis by simp
  qed
  show ?thesis
  proof (cases ?A)
    case Nil
    with m show ?thesis by simp
  next
    case (Cons a as)
    with short have "?A = [a]" by simp
    with m have "mset ?B = {#a#}" by simp
    then have "?B = [a]" by (simp only: mset_single_iff)
    with \<open>?A = [a]\<close> show ?thesis by simp
  qed
qed

lemma agg_first_permuted:
  assumes "distinct (map row_key xs)" and "mset xs = mset ys"
  shows "agg_first xs k = agg_first ys k"
  using filter_key_permuted [OF assms, of k] by (simp add: agg_first_def)

lemma grouped_permuted:
  assumes "distinct (map row_key xs)" and "mset xs = mset ys"
  shows "grouped xs = grouped ys"
proof -
  have "set (map row_key xs) = set (map row_key ys)"
    using assms(2) by (metis mset_eq_setD set_map)
  then have "sort (remdups (map row_key xs)) = sort (remdups (map row_key ys))"
    by (metis sorted_list_of_set_sort_remdups)
  moreover have "(\<lambda>k. (k, agg_first xs k)) = (\<lambda>k. (k, agg_first ys k))"
    using agg_first_permuted [OF assms] by auto
  ultimately show ?thesis by (simp add: grouped_def)
qed

lemma pivot_index_sorted:
  "sorted (pindex (pivot_table game_stats)) \<and> distinct (pindex (pivot_table game_stats))"
  by (simp add: pivot_table_def Let_def)

lemma first_valid_None: "first_valid xs = None \<longleftrightarrow> (\<forall>x \<in> set xs. x = None)"
  by (induction xs rule: first_valid.induct) auto

lemma agg_first_no_value:
  "agg_first gs t = (None, None) \<longleftrightarrow>
     (\<forall>r \<in> set gs. row_key r = t \<longrightarrow> home r = None \<and> away r = None)"
  by (auto simp: agg_first_def Let_def first_valid_None)

lemma in_grouped:
  "(t, v) \<in> set (grouped gs) \<longleftrightarrow>
     t \<in> row_key ` set gs \<and> v = agg_first gs t \<and> v \<noteq> (None, None)"
  by (cases v) (auto simp: grouped_def)

lemma set_pindex:
  "set (pindex (pivot_table gs)) =
     (\<lambda>r. (key r, stat_group r)) ` {r \<in> set gs. \<not> (home r = None \<and> away r = None)}"
proof (intro set_eqI iffI)
  fix x
  assume "x \<in> set (pindex (pivot_table gs))"
  then obtain t v where g: "(t, v) \<in> set (grouped gs)" and x: "x = (fst t, fst (snd t))"
    by (auto simp: pivot_table_def Let_def)
  from g have "agg_first gs t \<noteq> (None, None)"
    using in_grouped [of t v gs] by blast
  then obtain r where "r \<in> set gs" "row_key r = t" "\<not> (home r = None \<and> away r = None)"
    by (auto simp: agg_first_no_value)
  then show "x \<in> (\<lambda>r. (key r, stat_group r)) ` {r \<in> set gs. \<not> (home r = None \<and> away r = None)}"
    using x by (force simp: row_key_def)
next
  fix x
  assume "x \<in> (\<lambda>r. (key r, stat_group r)) ` {r \<in> set gs. \<not> (home r = None \<and> away r = None)}"
  then obtain r where r: "r \<in> set gs" "\<not> (home r = None \<and> away r = None)"
    and x: "x = (key r, stat_group r)" by auto
  from r have "agg_first gs (row_key r) \<noteq> (None, None)"
    by (auto simp: agg_first_no_value)
  with r(1) have "(row_key r, agg_first gs (row_key r)) \<in> set (grouped gs)"
    using in_grouped [of "row_key r" "agg_first gs (row_key r)" gs] by blast
  then have "(\<lambda>((k, c, p), h, a). (k, c)) (row_key r, agg_first gs (row_key r))
               \<in> (\<lambda>((k, c, p), h, a). (k, c)) ` set (grouped gs)"
    by (rule imageI)
  then have "(key r, stat_group r) \<in> (\<lambda>((k, c, p), h, a). (k, c)) ` set (grouped gs)"
    by (cases "agg_first gs (row_key r)") (simp add: row_key_def)
  then show "x \<in> set (pindex (pivot_table gs))"
    using x by (simp add: pivot_table_def Let_def)
qed

text \<open>
  C6. The rows of the team statistics are one per key, group and period. For such rows
  the result, a prompt or an exception, is the same in whatever order they arrive; and
  every prompt returned lists the groups that have a value in ascending order of
  (key, group), each once, whatever the order of the rows.
\<close>

theorem prompt_row_order_independent:
  assumes "distinct (map row_key game_stats)" and "mset game_stats = mset game_stats'"
  shows "get_team_llm_prompt other game_stats match_dict
           = get_team_llm_prompt other game_stats' match_dict
       \<and> (\<exists>groups. sorted groups \<and> distinct groups
             \<and> set groups = (\<lambda>r. (key r, stat_group r)) `
                   {r \<in> set game_stats. \<not> (home r = None \<and> away r = None)}
             \<and> (\<forall>m prompt. read_match_info match_dict = Inr m
                   \<and> get_team_llm_prompt other game_stats' match_dict = Inr prompt
                 \<longrightarrow> prompt = ''Match Stats Summary: '' @ nl @ nl
                       @ concat (map (spec_group game_stats) groups)
                       @ metadata_section other m @ closing_instruction))"
proof -
  have same: "get_team_llm_prompt other game_stats match_dict
                = get_team_llm_prompt other game_stats' match_dict"
    using grouped_permuted [OF assms] by (simp add: get_team_llm_prompt_def pivot_table_def)
  let ?groups = "pindex (pivot_table game_stats)"
  have "sorted ?groups" "distinct ?groups"
    using pivot_index_sorted [of game_stats] by simp_all
  moreover have "set ?groups = (\<lambda>r. (key r, stat_group r)) `
                   {r \<in> set game_stats. \<not> (home r = None \<and> away r = None)}"
    by (rule set_pindex)
  moreover have "prompt = ''Match Stats Summary: '' @ nl @ nl
                       @ concat (map (spec_group game_stats) ?groups)
                       @ metadata_section other m @ closing_instruction"
    if "read_match_info match_dict = Inr m
        \<and> get_team_llm_prompt other game_stats' match_dict = Inr prompt" for m prompt
    using that same returned_prompt_text [of match_dict m other game_stats prompt]
    by (simp add: prompt_text_def)
  ultimately show ?thesis using same by blast
qed

theorem prompt_row_order_independent_witness:
  "distinct (map row_key full_stats) \<and> mset full_stats = mset (rev full_stats)
   \<and> read_match_info anfield_match = Inr anfield_info
   \<and> get_team_llm_prompt no_other full_stats anfield_match
       = get_team_llm_prompt no_other (rev full_stats) anfield_match
   \<and> get_team_llm_prompt no_other (rev full_stats) anfield_match
       = Inr (''Match Stats Summary: '' @ nl @ nl
              @ (''Corners: 1ST: Away 2; '' @ nl @ nl
                 @ ''Possession: ALL: Home 60%, Away 40%; 2ND: Away 45%; '' @ nl @ nl
                 @ ''Shots: ALL: Home 12, Away 7; 1ST: Home 5; 2ND: Home 7, Away 3; '' @ nl @ nl)
              @ metadata_section no_other anfield_info @ closing_instruction)"
proof -
  have d: "distinct (map row_key full_stats)"
    by (simp add: full_stats_def row_key_def)
  have m: "mset full_stats = mset (rev full_stats)" by simp
  have "get_team_llm_prompt no_other full_stats anfield_match
          = get_team_llm_prompt no_other (rev full_stats) anfield_match"
    using prompt_row_order_independent [OF d m, of no_other anfield_match] by blast
  then show ?thesis
    using d m read_anfield_match prompt_full_stats by simp
qed

end
